theory Spec2Isabelle
  imports Main "HOL-Library.Multiset"
begin

section \<open>Python strings\<close>

text \<open>
  Hostnames, brands and trait kinds are Python \<open>str\<close> values. They are modelled as
  \<open>string\<close> (lists of characters) over ASCII, which is what host names and the brand
  list are made of. The built-in string operations the analysers use are written out.
\<close>

definition is_upper :: "char \<Rightarrow> bool" where
  "is_upper c = (65 \<le> (of_char c :: nat) \<and> (of_char c :: nat) \<le> 90)"

definition is_lower :: "char \<Rightarrow> bool" where
  "is_lower c = (97 \<le> (of_char c :: nat) \<and> (of_char c :: nat) \<le> 122)"

definition is_digit :: "char \<Rightarrow> bool" where
  "is_digit c = (48 \<le> (of_char c :: nat) \<and> (of_char c :: nat) \<le> 57)"

definition isalnum :: "char \<Rightarrow> bool" where
  "isalnum c = (is_upper c \<or> is_lower c \<or> is_digit c)"

definition lower_char :: "char \<Rightarrow> char" where
  "lower_char c = (if is_upper c then char_of ((of_char c :: nat) + 32) else c)"

text \<open>\<open>s.lower()\<close>\<close>

definition lower :: "string \<Rightarrow> string" where
  "lower s = map lower_char s"

text \<open>\<open>s.startswith(p)\<close> and \<open>s.endswith(p)\<close>\<close>

fun startswith :: "string \<Rightarrow> string \<Rightarrow> bool" where
  "startswith s [] = True"
| "startswith [] (p # ps) = False"
| "startswith (c # cs) (p # ps) = (c = p \<and> startswith cs ps)"

definition endswith :: "string \<Rightarrow> string \<Rightarrow> bool" where
  "endswith s p = startswith (rev s) (rev p)"

text \<open>\<open>sub in s\<close>: \<open>sub\<close> occurs in \<open>s\<close> as a contiguous substring.\<close>

fun str_in :: "string \<Rightarrow> string \<Rightarrow> bool" where
  "str_in sub [] = (sub = [])"
| "str_in sub (c # cs) = (startswith (c # cs) sub \<or> str_in sub cs)"

text \<open>\<open>s.split(c)\<close> for a one-character separator; the result is never empty.\<close>

fun split :: "string \<Rightarrow> char \<Rightarrow> string list" where
  "split [] sep = [[]]"
| "split (c # cs) sep =
     (if c = sep then [] # split cs sep
      else (case split cs sep of
              [] \<Rightarrow> [[c]]
            | p # ps \<Rightarrow> (c # p) # ps))"

text \<open>
  \<open>s.replace(old, new)\<close>: every non-overlapping occurrence of \<open>old\<close>, found from the
  left, becomes \<open>new\<close>. For an empty \<open>old\<close>, Python puts \<open>new\<close> before every character
  and at the end.
\<close>

function replace :: "string \<Rightarrow> string \<Rightarrow> string \<Rightarrow> string" where
  "replace [] old new = (if old = [] then new else [])"
| "replace (c # cs) old new =
     (if old = [] then new @ c # replace cs old new
      else if startswith (c # cs) old then new @ replace (drop (length old) (c # cs)) old new
      else c # replace cs old new)"
  by pat_completeness auto
termination
  by (relation "measure (\<lambda>(s, old, new). length s)") auto

text \<open>\<open>str(n)\<close> for an integer, as the f-strings of the descriptions use it.\<close>

definition digit_char :: "nat \<Rightarrow> char" where
  "digit_char d = char_of (48 + d)"

function str_nat :: "nat \<Rightarrow> string" where
  "str_nat n = (if n < 10 then [digit_char n] else str_nat (n div 10) @ [digit_char (n mod 10)])"
  by pat_completeness auto
termination
  by (relation "measure id") auto

declare str_nat.simps [simp del]

definition str_int :: "int \<Rightarrow> string" where
  "str_int i = (if i < 0 then CHR ''-'' # str_nat (nat (- i)) else str_nat (nat i))"

section \<open>Data\<close>

text \<open>
  The analysers pass dictionaries around. Each kind of dictionary has a fixed set of keys,
  so each is a record; the key \<open>"type"\<close> stays a string, since the risk engine looks it up
  in its weight table by name. The key \<open>"value"\<close> holds a string or a number.
\<close>

datatype pyval = Str string | Num int

record trait =
  trait_type :: string
  trait_value :: pyval
  trait_description :: string

text \<open>
  A brand match; the keys \<open>"similarity"\<close> and \<open>"levenshtein"\<close> exist only in typosquatting
  matches, the key \<open>"substitution"\<close> only in homoglyph matches.
\<close>

record brand_match =
  match_type :: string
  match_brand :: string
  match_value :: string
  match_similarity :: "nat option"
  match_levenshtein :: "nat option"
  match_substitution :: "string option"
  match_description :: string

record risk_factor =
  factor_type :: string
  factor_weight :: int
  factor_description :: string

section \<open>Binary floating point, as far as the risk engine uses it\<close>

text \<open>
  The risk engine computes \<open>int(weight * (similarity / 100))\<close>. In Python \<open>/\<close> on two
  integers is the correctly rounded binary64 quotient, \<open>*\<close> converts the integer weight to
  binary64 and rounds the product to nearest, ties to even, and \<open>int\<close> truncates toward
  zero. A finite binary64 number is modelled as a pair \<open>(m, e)\<close> standing for
  \<open>m * 2 ^ e\<close>, with a 53-bit mantissa; the exponent range is not modelled (weights and
  similarities are nowhere near it).
\<close>

function bitlen :: "int \<Rightarrow> int" where
  "bitlen n = (if n \<le> 0 then 0 else 1 + bitlen (n div 2))"
  by pat_completeness auto
termination
  by (relation "measure nat") auto

declare bitlen.simps [simp del]

text \<open>The quotient \<open>a / b\<close> (\<open>a \<ge> 0\<close>, \<open>b > 0\<close>) rounded to nearest, ties to even.\<close>

definition round_half_even :: "int \<Rightarrow> int \<Rightarrow> int" where
  "round_half_even a b =
     (let d = a div b; r = a mod b
      in if 2 * r < b then d
         else if b < 2 * r then d + 1
         else if even d then d else d + 1)"

text \<open>
  The binary64 number nearest to the fraction \<open>p / q\<close> (\<open>p \<ge> 0\<close>, \<open>q > 0\<close>): with
  \<open>2 ^ e \<le> p / q < 2 ^ (e + 1)\<close>, the mantissa is \<open>p / q * 2 ^ (52 - e)\<close>, rounded.
\<close>

definition to_double :: "int \<Rightarrow> int \<Rightarrow> int \<times> int" where
  "to_double p q =
     (if p \<le> 0 then (0, 0)
      else
        let k = bitlen p - bitlen q;
            ge = (if 0 \<le> k then q * 2 ^ nat k \<le> p else q \<le> p * 2 ^ nat (- k));
            e = (if ge then k else k - 1);
            sh = 52 - e;
            m = (if 0 \<le> sh then round_half_even (p * 2 ^ nat sh) q
                 else round_half_even p (q * 2 ^ nat (- sh)))
        in (m, - sh))"

text \<open>The product of a non-negative integer (converted to binary64) and a binary64 number.\<close>

definition double_times :: "int \<Rightarrow> int \<times> int \<Rightarrow> int \<times> int" where
  "double_times w f =
     (case (to_double w 1, f) of
        ((m1, e1), (m2, e2)) \<Rightarrow>
          (let m = m1 * m2; e = e1 + e2
           in if 0 \<le> e then to_double (m * 2 ^ nat e) 1 else to_double m (2 ^ nat (- e))))"

text \<open>\<open>int(f)\<close> for a non-negative binary64 number.\<close>

definition double_trunc :: "int \<times> int \<Rightarrow> int" where
  "double_trunc f = (case f of (m, e) \<Rightarrow> if 0 \<le> e then m * 2 ^ nat e else m div 2 ^ nat (- e))"

text \<open>\<open>int(weight * (similarity / 100))\<close>; the sign of the weight goes through unchanged.\<close>

definition scale_weight :: "int \<Rightarrow> nat \<Rightarrow> int" where
  "scale_weight weight similarity =
     (let similarity_factor = to_double (int similarity) 100;
          magnitude = double_trunc (double_times \<bar>weight\<bar> similarity_factor)
      in if weight < 0 then - magnitude else magnitude)"

section \<open>Risk engine\<close>

text \<open>The weight table of \<open>RiskEngine.__init__\<close>, a dictionary from kind to weight.\<close>

definition risk_weights :: "(string \<times> int) list" where
  "risk_weights =
     [(''non_standard_port'', 15),
      (''ip_address'', 25),
      (''private_ip'', 30),
      (''many_subdomains'', 15),
      (''suspicious_tld'', 20),
      (''hex_encoding'', 30),
      (''punycode'', 25),
      (''long_url'', 10),
      (''special_chars'', 15),
      (''non_existent_domain'', 40),
      (''whois_lookup_failed'', 15),
      (''new_domain'', 25),
      (''suspicious_registrar'', 15),
      (''short_registration'', 20),
      (''ip_address_no_whois'', 25),
      (''brand_in_domain'', 15),
      (''brand_in_subdomain'', 20),
      (''typosquatting'', 40),
      (''homoglyph_attack'', 50),
      (''partial_homoglyph'', 35)]"

definition max_risk_score :: int where
  "max_risk_score = 100"

text \<open>
  The body of the first two loops of \<open>calculate_risk\<close>: a trait whose kind is in the
  table gives a factor with the table's weight and the trait's description; any other
  trait gives nothing.
\<close>

definition trait_factor :: "(string \<times> int) list \<Rightarrow> trait \<Rightarrow> risk_factor option" where
  "trait_factor weights t =
     (case map_of weights (trait_type t) of
        None \<Rightarrow> None
      | Some weight \<Rightarrow>
          Some \<lparr>factor_type = trait_type t, factor_weight = weight,
                factor_description = trait_description t\<rparr>)"

text \<open>
  The weight a brand match is recorded with: the table's weight, scaled for a
  typosquatting match that carries a similarity.
\<close>

definition match_weight :: "int \<Rightarrow> brand_match \<Rightarrow> int" where
  "match_weight weight m =
     (case match_similarity m of
        Some similarity \<Rightarrow>
          (if match_type m = ''typosquatting'' then scale_weight weight similarity else weight)
      | None \<Rightarrow> weight)"

text \<open>The body of the third loop.\<close>

definition match_factor :: "(string \<times> int) list \<Rightarrow> brand_match \<Rightarrow> risk_factor option" where
  "match_factor weights m =
     (case map_of weights (match_type m) of
        None \<Rightarrow> None
      | Some weight \<Rightarrow>
          Some \<lparr>factor_type = match_type m, factor_weight = match_weight weight m,
                factor_description = match_description m\<rparr>)"

text \<open>
  What each loop does with a factor: \<open>total_weight += weight\<close> and
  \<open>risk_factors.append(...)\<close>.
\<close>

definition add_factor :: "risk_factor option \<Rightarrow> int \<times> risk_factor list \<Rightarrow> int \<times> risk_factor list" where
  "add_factor f acc =
     (case f of
        None \<Rightarrow> acc
      | Some factor \<Rightarrow>
          (case acc of (total_weight, risk_factors) \<Rightarrow>
             (total_weight + factor_weight factor, risk_factors @ [factor])))"

text \<open>
  The \<open>features\<close> dictionary as far as the risk engine reads it: each of the three keys
  may be missing.
\<close>

record risk_input =
  in_suspicious_traits :: "trait list option"
  in_domain_traits :: "trait list option"
  in_brand_matches :: "brand_match list option"

text \<open>The state of \<open>calculate_risk\<close> after its three loops, before capping and sorting.\<close>

definition collect_factors :: "(string \<times> int) list \<Rightarrow> risk_input \<Rightarrow> int \<times> risk_factor list" where
  "collect_factors weights features =
     (let acc0 = (0, []);
          acc1 = (case in_suspicious_traits features of
                    None \<Rightarrow> acc0 | Some ts \<Rightarrow> fold (\<lambda>t. add_factor (trait_factor weights t)) ts acc0);
          acc2 = (case in_domain_traits features of
                    None \<Rightarrow> acc1 | Some ts \<Rightarrow> fold (\<lambda>t. add_factor (trait_factor weights t)) ts acc1);
          acc3 = (case in_brand_matches features of
                    None \<Rightarrow> acc2 | Some ms \<Rightarrow> fold (\<lambda>m. add_factor (match_factor weights m)) ms acc2)
      in acc3)"


text \<open>
  \<open>risk_factors.sort(key=lambda x: x["weight"], reverse=True)\<close>: Python's sort is stable,
  also with \<open>reverse=True\<close>; it is the stable sort on the negated weight.
\<close>

definition sort_factors :: "risk_factor list \<Rightarrow> risk_factor list" where
  "sort_factors fs = sort_key (\<lambda>x. - factor_weight x) fs"

definition calculate_risk :: "(string \<times> int) list \<Rightarrow> risk_input \<Rightarrow> int \<times> risk_factor list" where
  "calculate_risk weights features =
     (case collect_factors weights features of
        (total_weight, risk_factors) \<Rightarrow>
          (min total_weight max_risk_score, sort_factors risk_factors))"

section \<open>Libraries the analysers call\<close>

text \<open>
  The analysers call libraries that are not part of the program: \<open>urllib.parse\<close>,
  \<open>tldextract\<close>, \<open>ipaddress\<close>, \<open>fuzzywuzzy\<close>, \<open>socket\<close>, \<open>whois\<close> and the clock. The model
  takes what they return as parameters, collected in one record, so that every theorem
  holds whatever the libraries answer. An exception a library raises is a value: \<open>Inl\<close>.
\<close>

datatype error = ValueError string | NameError string

text \<open>\<open>urllib.parse.ParseResult\<close>\<close>

record parse_result =
  pr_scheme :: string
  pr_netloc :: string
  pr_path :: string
  pr_params :: string
  pr_query :: string
  pr_fragment :: string

text \<open>\<open>tldextract.ExtractResult\<close>\<close>

record extract_result =
  er_subdomain :: string
  er_domain :: string
  er_suffix :: string

text \<open>
  A WHOIS date field is missing, one \<open>datetime\<close> or a list of them. A \<open>datetime\<close> is the
  number of microseconds since a fixed instant.
\<close>

datatype date_value = NoDate | OneDate int | DateList "int list"

record whois_info =
  wi_domain_name :: "string option"
  wi_creation_date :: date_value
  wi_expiration_date :: date_value
  wi_updated_date :: date_value
  wi_registrar :: "string option"

record env =
  lib_urlparse :: "string \<Rightarrow> error + parse_result"
  lib_geturl :: "parse_result \<Rightarrow> string"
  lib_parse_qs :: "string \<Rightarrow> (string \<times> string list) list"
  lib_extract :: "string \<Rightarrow> extract_result"
  lib_is_private :: "string \<Rightarrow> bool option"
  lib_ratio :: "string \<Rightarrow> string \<Rightarrow> nat"
  lib_inet_aton :: "string \<Rightarrow> bool"
  lib_whois :: "string \<Rightarrow> string + whois_info"
  lib_now :: int

text \<open>
  \<^item> \<open>lib_urlparse\<close>: \<open>urllib.parse.urlparse(url)\<close>, which raises \<open>ValueError\<close> on some
    inputs; \<open>lib_geturl\<close>: \<open>parsed.geturl()\<close>; \<open>lib_parse_qs\<close>: \<open>urllib.parse.parse_qs\<close>.
  \<^item> \<open>lib_extract\<close>: \<open>tldextract.extract\<close>.
  \<^item> \<open>lib_is_private\<close>: \<open>ipaddress.ip_address(ip).is_private\<close>, \<open>None\<close> when
    \<open>ip_address\<close> raises \<open>ValueError\<close>.
  \<^item> \<open>lib_ratio\<close>: \<open>fuzz.ratio\<close>, a percentage.
  \<^item> \<open>lib_inet_aton\<close>: whether \<open>socket.inet_aton\<close> accepts the string.
  \<^item> \<open>lib_whois\<close>: \<open>whois.whois(domain)\<close>; \<open>Inl\<close> carries \<open>str(e)\<close> of the exception raised.
  \<^item> \<open>lib_now\<close>: \<open>datetime.datetime.now()\<close>.
\<close>

section \<open>Brand matcher\<close>

definition squote :: string where
  "squote = [CHR 0x27]"

definition default_brands :: "string list" where
  "default_brands =
     [''google'', ''microsoft'', ''apple'', ''amazon'', ''facebook'', ''paypal'',
      ''netflix'', ''instagram'', ''twitter'', ''linkedin'', ''dropbox'', ''yahoo'',
      ''chase'', ''bankofamerica'', ''wellsfargo'', ''citibank'', ''hsbc'', ''barclays'',
      ''americanexpress'', ''mastercard'', ''visa'', ''outlook'', ''gmail'', ''icloud'',
      ''office365'', ''onedrive'', ''dropbox'', ''box'', ''adobe'', ''spotify'',
      ''steam'', ''epicgames'', ''blizzard'', ''ea'', ''ubisoft'', ''nintendo'',
      ''playstation'', ''xbox'', ''twitch'', ''youtube'', ''walmart'', ''target'',
      ''ebay'', ''aliexpress'', ''fedex'', ''ups'', ''dhl'', ''usps'']"

text \<open>
  \<open>_load_brands\<close>: the list read from the brands file when there is one and it can be
  read (\<open>Some\<close>), the default list otherwise.
\<close>

definition load_brands :: "string list option \<Rightarrow> string list" where
  "load_brands loaded = (case loaded of Some bs \<Rightarrow> bs | None \<Rightarrow> default_brands)"

definition fuzzy_threshold :: nat where
  "fuzzy_threshold = 85"

definition levenshtein_threshold :: nat where
  "levenshtein_threshold = 2"

subsection \<open>Levenshtein distance\<close>

text \<open>
  The body of the inner loop of \<open>_levenshtein_distance\<close>: one more cell of
  \<open>current_row\<close>, from the row above and the cell to the left.
\<close>

definition lev_cell :: "char \<Rightarrow> nat list \<Rightarrow> nat \<times> char \<Rightarrow> nat list \<Rightarrow> nat list" where
  "lev_cell c1 previous_row jc current_row =
     (case jc of (j, c2) \<Rightarrow>
        (let insertions = previous_row ! (j + 1) + 1;
             deletions = current_row ! j + 1;
             substitutions = previous_row ! j + (if c1 \<noteq> c2 then 1 else 0)
         in current_row @ [min insertions (min deletions substitutions)]))"

text \<open>The body of the outer loop: the row of character \<open>c1\<close>, at index \<open>i\<close> of \<open>s1\<close>.\<close>

definition lev_row :: "string \<Rightarrow> nat \<times> char \<Rightarrow> nat list \<Rightarrow> nat list" where
  "lev_row s2 ic previous_row =
     (case ic of (i, c1) \<Rightarrow> fold (lev_cell c1 previous_row) (enumerate 0 s2) [i + 1])"

function levenshtein_distance :: "string \<Rightarrow> string \<Rightarrow> nat" where
  "levenshtein_distance s1 s2 =
     (if length s1 < length s2 then levenshtein_distance s2 s1
      else if length s2 = 0 then length s1
      else last (fold (lev_row s2) (enumerate 0 s1) [0..<length s2 + 1]))"
  by pat_completeness auto
termination
  by (relation "measure (\<lambda>(s1, s2). if length s1 < length s2 then 1 else 0)") auto

declare levenshtein_distance.simps [simp del]

text \<open>
  The classic edit distance, as a recursion on the two strings: deleting, inserting and
  substituting a character cost 1 each, and the distance is the cheapest way.
\<close>

fun edit_distance :: "string \<Rightarrow> string \<Rightarrow> nat" where
  "edit_distance [] ys = length ys"
| "edit_distance (x # xs) [] = length (x # xs)"
| "edit_distance (x # xs) (y # ys) =
     min (edit_distance xs (y # ys) + 1)
       (min (edit_distance (x # xs) ys + 1)
            (edit_distance xs ys + (if x = y then 0 else 1)))"

text \<open>
  The row of the table that belongs to a prefix \<open>a\<close> of the first string: the edit
  distances from \<open>a\<close> to every prefix of the second string.
\<close>

definition dist_row :: "string \<Rightarrow> string \<Rightarrow> nat list" where
  "dist_row a s2 = map (\<lambda>j. edit_distance a (take j s2)) [0..<length s2 + 1]"

subsection \<open>Homoglyphs\<close>

text \<open>
  A Python dictionary display is evaluated left to right: a key that is already there
  keeps its place and takes the new value. \<open>.items()\<close> lists the entries in that order.
\<close>

fun dict_set :: "string \<times> string \<Rightarrow> (string \<times> string) list \<Rightarrow> (string \<times> string) list" where
  "dict_set (k, v) [] = [(k, v)]"
| "dict_set (k, v) ((k', v') # d) = (if k' = k then (k, v) # d else (k', v') # dict_set (k, v) d)"

definition dict_display :: "(string \<times> string) list \<Rightarrow> (string \<times> string) list" where
  "dict_display entries = fold dict_set entries []"

definition homoglyphs :: "(string \<times> string) list" where
  "homoglyphs = dict_display
     [(''0'', ''o''), (''o'', ''0''),
      (''1'', ''l''), (''l'', ''1''), (''i'', ''1''), (''1'', ''i''),
      (''5'', ''s''), (''s'', ''5''),
      (''rn'', ''m''), (''m'', ''rn''),
      (''cl'', ''d''), (''d'', ''cl''),
      (''vv'', ''w''), (''w'', ''vv''),
      (''nn'', ''m''), (''m'', ''nn'')]"

text \<open>The body of the inner loop of \<open>_check_homoglyphs\<close>, for one brand and one entry.\<close>

definition homoglyph_entry :: "string \<Rightarrow> string \<Rightarrow> string \<times> string \<Rightarrow> brand_match list" where
  "homoglyph_entry domain brand entry =
     (case entry of (original, replacement) \<Rightarrow>
        if str_in original brand then
          (let modified_brand = replace brand original replacement;
               substitution = squote @ original @ squote @ '' to '' @ squote @ replacement @ squote
           in if lower domain = lower modified_brand then
                [\<lparr>match_type = ''homoglyph_attack'', match_brand = brand, match_value = domain,
                  match_similarity = None, match_levenshtein = None,
                  match_substitution = Some substitution,
                  match_description = ''Homoglyph attack on '' @ squote @ brand @ squote
                     @ '' (replacing '' @ squote @ original @ squote @ '' with ''
                     @ squote @ replacement @ squote @ '')''\<rparr>]
              else if str_in (lower modified_brand) (lower domain) then
                [\<lparr>match_type = ''partial_homoglyph'', match_brand = brand, match_value = domain,
                  match_similarity = None, match_levenshtein = None,
                  match_substitution = Some substitution,
                  match_description = ''Partial homoglyph match for '' @ squote @ brand @ squote
                     @ '' in domain''\<rparr>]
              else [])
        else [])"

definition homoglyph_brand :: "string \<Rightarrow> string \<Rightarrow> brand_match list" where
  "homoglyph_brand domain brand =
     (if length brand < 4 then [] else concat (map (homoglyph_entry domain brand) homoglyphs))"

definition check_homoglyphs :: "string list \<Rightarrow> string \<Rightarrow> brand_match list" where
  "check_homoglyphs brands domain = concat (map (homoglyph_brand domain) brands)"

subsection \<open>Finding matches\<close>

text \<open>
  The body of the first loop of \<open>find_matches\<close>. The \<open>continue\<close> for a domain that is the
  brand itself also skips the subdomain check of that brand.
\<close>

definition brand_in_subdomain :: "extract_result \<Rightarrow> string \<Rightarrow> brand_match list" where
  "brand_in_subdomain extracted brand =
     (if er_subdomain extracted \<noteq> [] \<and> str_in brand (lower (er_subdomain extracted)) then
        [\<lparr>match_type = ''brand_in_subdomain'', match_brand = brand,
          match_value = er_subdomain extracted,
          match_similarity = None, match_levenshtein = None, match_substitution = None,
          match_description = ''Brand '' @ squote @ brand @ squote @ '' found in subdomain''\<rparr>]
      else [])"

definition exact_brand :: "extract_result \<Rightarrow> string \<Rightarrow> brand_match list" where
  "exact_brand extracted brand =
     (let domain = er_domain extracted
      in if str_in brand (lower domain) then
           (if lower domain = lower brand then []
            else \<lparr>match_type = ''brand_in_domain'', match_brand = brand, match_value = domain,
                   match_similarity = None, match_levenshtein = None, match_substitution = None,
                   match_description = ''Brand '' @ squote @ brand @ squote @ '' found in domain''\<rparr>
                 # brand_in_subdomain extracted brand)
         else brand_in_subdomain extracted brand)"

text \<open>The body of the second loop.\<close>

definition typosquatting_brand :: "env \<Rightarrow> string \<Rightarrow> string \<Rightarrow> brand_match list" where
  "typosquatting_brand e domain brand =
     (if length brand < 4 then []
      else
        let ratio = lib_ratio e (lower domain) (lower brand);
            levenshtein = levenshtein_distance (lower domain) (lower brand)
        in if fuzzy_threshold \<le> ratio \<or> (levenshtein \<le> levenshtein_threshold \<and> 4 < length brand) then
             (if lower domain = lower brand then []
              else [\<lparr>match_type = ''typosquatting'', match_brand = brand, match_value = domain,
                      match_similarity = Some ratio, match_levenshtein = Some levenshtein,
                      match_substitution = None,
                      match_description = ''Possible typosquatting of '' @ squote @ brand @ squote
                         @ '' (similarity: '' @ str_nat ratio @ ''%)''\<rparr>])
           else [])"

definition find_matches :: "env \<Rightarrow> string list \<Rightarrow> string \<Rightarrow> brand_match list" where
  "find_matches e brands hostname =
     (let extracted = lib_extract e hostname;
          domain = er_domain extracted
      in concat (map (exact_brand extracted) brands)
         @ concat (map (typosquatting_brand e domain) brands)
         @ check_homoglyphs brands domain)"

section \<open>URL parser\<close>

text \<open>
  The parser's regular expressions are sequences of character classes with a repetition
  range each. \<open>match_here\<close> says whether a prefix of the string matches the sequence,
  \<open>re_search\<close> whether the pattern matches anywhere (\<open>pattern.search(s)\<close> is not \<open>None\<close>).
\<close>

type_synonym re_item = "(char \<Rightarrow> bool) \<times> nat \<times> nat"

function match_here :: "re_item list \<Rightarrow> string \<Rightarrow> bool" where
  "match_here [] s = True"
| "match_here ((p, lo, hi) # items) s =
     (if 0 < lo then
        (case s of [] \<Rightarrow> False | c # cs \<Rightarrow> p c \<and> match_here ((p, lo - 1, hi - 1) # items) cs)
      else
        (0 < hi \<and> (case s of [] \<Rightarrow> False | c # cs \<Rightarrow> p c \<and> match_here ((p, 0, hi - 1) # items) cs))
        \<or> match_here items s)"
  by pat_completeness auto
termination
  by (relation "measures [\<lambda>(items, s). length s, \<lambda>(items, s). length items]") auto

fun re_search :: "re_item list \<Rightarrow> string \<Rightarrow> bool" where
  "re_search items [] = match_here items []"
| "re_search items (c # cs) = (match_here items (c # cs) \<or> re_search items cs)"

definition is_hex_digit :: "char \<Rightarrow> bool" where
  "is_hex_digit c = (is_digit c \<or> c \<in> set ''abcdefABCDEF'')"

text \<open>\<open>%[0-9a-fA-F]{2}\<close>\<close>

definition hex_pattern :: "re_item list" where
  "hex_pattern = [((\<lambda>c. c = CHR ''%''), 1, 1), (is_hex_digit, 2, 2)]"

text \<open>\<open>\d{1,3}\.\d{1,3}\.\d{1,3}\.\d{1,3}\<close>\<close>

definition ip_pattern :: "re_item list" where
  "ip_pattern =
     [(is_digit, 1, 3), ((\<lambda>c. c = CHR ''.''), 1, 1),
      (is_digit, 1, 3), ((\<lambda>c. c = CHR ''.''), 1, 1),
      (is_digit, 1, 3), ((\<lambda>c. c = CHR ''.''), 1, 1),
      (is_digit, 1, 3)]"

definition suspicious_tlds :: "string list" where
  "suspicious_tlds =
     [''tk'', ''ml'', ''ga'', ''cf'', ''gq'', ''xyz'', ''top'', ''work'', ''date'', ''bid'',
      ''stream'', ''racing'', ''win'', ''review'', ''country'', ''science'', ''download'']"

text \<open>The checks of \<open>_analyze_suspicious_traits\<close>, one definition for each.\<close>

definition port_traits :: "string \<Rightarrow> trait list" where
  "port_traits netloc =
     (if str_in '':'' netloc \<and> \<not> (endswith netloc '':80'' \<or> endswith netloc '':443'') then
        (let port = last (split netloc CHR '':'')
         in [\<lparr>trait_type = ''non_standard_port'', trait_value = Str port,
              trait_description = ''Non-standard port '' @ port @ '' in use''\<rparr>])
      else [])"

definition ip_traits :: "env \<Rightarrow> string \<Rightarrow> trait list" where
  "ip_traits e netloc =
     (let ip = hd (split netloc CHR '':'')
      in if re_search ip_pattern ip then
           \<lparr>trait_type = ''ip_address'', trait_value = Str ip,
             trait_description = ''IP address used instead of domain name''\<rparr>
           # (if lib_is_private e ip = Some True then
                [\<lparr>trait_type = ''private_ip'', trait_value = Str ip,
                  trait_description = ''Private IP address used''\<rparr>]
              else [])
         else [])"

definition subdomain_traits :: "extract_result \<Rightarrow> trait list" where
  "subdomain_traits extracted =
     (let subdomain_parts = split (er_subdomain extracted) CHR ''.''
      in if 3 < length subdomain_parts then
           [\<lparr>trait_type = ''many_subdomains'', trait_value = Str (er_subdomain extracted),
             trait_description = ''Excessive number of subdomains (''
                @ str_nat (length subdomain_parts) @ '')''\<rparr>]
         else [])"

definition tld_traits :: "extract_result \<Rightarrow> trait list" where
  "tld_traits extracted =
     (if er_suffix extracted \<in> set suspicious_tlds then
        [\<lparr>trait_type = ''suspicious_tld'', trait_value = Str (er_suffix extracted),
          trait_description = ''Suspicious TLD '' @ squote @ er_suffix extracted @ squote\<rparr>]
      else [])"

definition punycode_traits :: "string \<Rightarrow> trait list" where
  "punycode_traits netloc =
     (if str_in ''xn--'' netloc then
        [\<lparr>trait_type = ''punycode'', trait_value = Str netloc,
          trait_description = ''Punycode (IDN) encoding detected''\<rparr>]
      else [])"

definition length_traits :: "env \<Rightarrow> parse_result \<Rightarrow> trait list" where
  "length_traits e parsed =
     (let url_length = length (lib_geturl e parsed)
      in if 100 < url_length then
           [\<lparr>trait_type = ''long_url'', trait_value = Num (int url_length),
             trait_description = ''Excessively long URL ('' @ str_nat url_length @ '' characters)''\<rparr>]
         else [])"

definition special_traits :: "string \<Rightarrow> trait list" where
  "special_traits netloc =
     (let special_chars = length (filter (\<lambda>c. \<not> isalnum c \<and> c \<notin> set ''.-:'') netloc)
      in if 3 < special_chars then
           [\<lparr>trait_type = ''special_chars'', trait_value = Num (int special_chars),
             trait_description = ''Excessive special characters in domain (''
                @ str_nat special_chars @ '')''\<rparr>]
         else [])"

text \<open>
  \<open>_analyze_suspicious_traits(parsed, extracted)\<close>. The hex-encoding branch builds its trait
  from the name \<open>url\<close>, which is neither a parameter nor a local nor a global of the
  module: evaluating it raises \<open>NameError\<close>, and the traits found so far are lost.
\<close>

definition analyze_suspicious_traits :: "env \<Rightarrow> parse_result \<Rightarrow> extract_result \<Rightarrow> error + trait list" where
  "analyze_suspicious_traits e parsed extracted =
     (let netloc = pr_netloc parsed;
          before = port_traits netloc @ ip_traits e netloc
                   @ subdomain_traits extracted @ tld_traits extracted
      in if re_search hex_pattern netloc \<or> re_search hex_pattern (pr_path parsed) then
           Inl (NameError ''url'')
         else
           Inr (before @ punycode_traits netloc @ length_traits e parsed @ special_traits netloc))"

text \<open>The dictionary that \<open>parse\<close> returns.\<close>

record url_features =
  uf_url :: string
  uf_scheme :: string
  uf_hostname :: string
  uf_path :: string
  uf_query :: string
  uf_fragment :: string
  uf_domain :: string
  uf_subdomain :: string
  uf_tld :: string
  uf_query_params :: "(string \<times> string list) list"
  uf_suspicious_traits :: "trait list"

text \<open>The first statement of \<open>parse\<close>: a URL without a scheme gets \<open>http://\<close>.\<close>

definition ensure_scheme :: "string \<Rightarrow> string" where
  "ensure_scheme url =
     (if startswith url ''http://'' \<or> startswith url ''https://'' then url else ''http://'' @ url)"

definition parse :: "env \<Rightarrow> string \<Rightarrow> error + url_features" where
  "parse e url0 =
     (let url = ensure_scheme url0
      in case lib_urlparse e url of
           Inl err \<Rightarrow> Inl err
         | Inr parsed \<Rightarrow>
             (let extracted = lib_extract e url;
                  query_params = lib_parse_qs e (pr_query parsed)
              in case analyze_suspicious_traits e parsed extracted of
                   Inl err \<Rightarrow> Inl err
                 | Inr suspicious_traits \<Rightarrow>
                     Inr \<lparr>uf_url = url, uf_scheme = pr_scheme parsed,
                          uf_hostname = pr_netloc parsed, uf_path = pr_path parsed,
                          uf_query = pr_query parsed, uf_fragment = pr_fragment parsed,
                          uf_domain = er_domain extracted, uf_subdomain = er_subdomain extracted,
                          uf_tld = er_suffix extracted, uf_query_params = query_params,
                          uf_suspicious_traits = suspicious_traits\<rparr>))"

section \<open>Domain intelligence\<close>

definition suspicious_registrars :: "string list" where
  "suspicious_registrars =
     [''namecheap'', ''namesilo'', ''namebright'', ''porkbun'',
      ''dynadot'', ''internetbs'', ''epik'', ''regru'']"

definition min_domain_age :: int where
  "min_domain_age = 30"

text \<open>The dictionary that \<open>DomainIntelligence.analyze\<close> returns.\<close>

record domain_info =
  di_domain :: string
  di_domain_exists :: bool
  di_creation_date :: "int option"
  di_expiration_date :: "int option"
  di_last_updated :: "int option"
  di_registrar :: "string option"
  di_domain_age_days :: "int option"
  di_suspicious_traits :: "trait list"

definition get_first_date :: "date_value \<Rightarrow> int option" where
  "get_first_date date_value =
     (case date_value of
        NoDate \<Rightarrow> None
      | DateList [] \<Rightarrow> None
      | DateList (d # ds) \<Rightarrow> Some d
      | OneDate d \<Rightarrow> Some d)"

text \<open>\<open>(a - b).days\<close> for two datetimes: whole days, rounded down.\<close>

definition days_between :: "int \<Rightarrow> int \<Rightarrow> int" where
  "days_between a b = (a - b) div 86400000000"

definition is_ip_address :: "env \<Rightarrow> string \<Rightarrow> bool" where
  "is_ip_address e hostname = lib_inet_aton e hostname"

text \<open>The traits of a domain that WHOIS knows, in the order the checks are made.\<close>

definition new_domain_traits :: "env \<Rightarrow> int option \<Rightarrow> trait list" where
  "new_domain_traits e creation_date =
     (case creation_date of
        None \<Rightarrow> []
      | Some created \<Rightarrow>
          (let age_days = days_between (lib_now e) created
           in if age_days < min_domain_age then
                [\<lparr>trait_type = ''new_domain'', trait_value = Num age_days,
                  trait_description = ''Domain was registered recently (''
                     @ str_int age_days @ '' days ago)''\<rparr>]
              else []))"

definition registrar_traits :: "string option \<Rightarrow> trait list" where
  "registrar_traits registrar =
     (case registrar of
        None \<Rightarrow> []
      | Some r \<Rightarrow>
          if r \<noteq> [] \<and> (\<exists>sr \<in> set suspicious_registrars. str_in sr (lower r)) then
            [\<lparr>trait_type = ''suspicious_registrar'', trait_value = Str r,
              trait_description = ''Domain registered with suspicious registrar: '' @ r\<rparr>]
          else [])"

definition registration_traits :: "int option \<Rightarrow> int option \<Rightarrow> trait list" where
  "registration_traits creation_date expiration_date =
     (case (creation_date, expiration_date) of
        (Some created, Some expires) \<Rightarrow>
          (let period_days = days_between expires created
           in if period_days < 365 then
                [\<lparr>trait_type = ''short_registration'', trait_value = Num period_days,
                  trait_description = ''Short registration period (''
                     @ str_int period_days @ '' days)''\<rparr>]
              else [])
      | _ \<Rightarrow> [])"

text \<open>The first statement of \<open>DomainIntelligence.analyze\<close>: the port is cut off.\<close>

definition strip_port :: "string \<Rightarrow> string" where
  "strip_port hostname =
     (if str_in '':'' hostname then hd (split hostname CHR '':'') else hostname)"

text \<open>
  \<open>DomainIntelligence.analyze(hostname)\<close>. The result comes with the list of the domains
  that were looked up with WHOIS during the call, in order. (Dates are plain datetimes
  here, so the date arithmetic inside the \<open>try\<close> block raises nothing.)
\<close>

definition domain_intelligence_analyze :: "env \<Rightarrow> string \<Rightarrow> domain_info \<times> string list" where
  "domain_intelligence_analyze e hostname0 =
     (let hostname = strip_port hostname0;
          extracted = lib_extract e hostname;
          domain = (if er_suffix extracted \<noteq> [] then er_domain extracted @ ''.'' @ er_suffix extracted
                    else er_domain extracted);
          result = \<lparr>di_domain = domain, di_domain_exists = False, di_creation_date = None,
                    di_expiration_date = None, di_last_updated = None, di_registrar = None,
                    di_domain_age_days = None, di_suspicious_traits = []\<rparr>
      in if is_ip_address e hostname then
           (result\<lparr>di_suspicious_traits :=
              [\<lparr>trait_type = ''ip_address_no_whois'', trait_value = Str hostname,
                trait_description = ''IP address used instead of domain name (no WHOIS data)''\<rparr>]\<rparr>,
            [])
         else
           (case lib_whois e domain of
              Inl msg \<Rightarrow>
                (result\<lparr>di_suspicious_traits :=
                   [\<lparr>trait_type = ''whois_lookup_failed'', trait_value = Str msg,
                     trait_description = ''WHOIS lookup failed, which may indicate a suspicious domain''\<rparr>]\<rparr>,
                 [domain])
            | Inr whois_info \<Rightarrow>
                if wi_domain_name whois_info = None then
                  (result\<lparr>di_suspicious_traits :=
                     [\<lparr>trait_type = ''non_existent_domain'', trait_value = Str domain,
                       trait_description = ''Domain does not exist in WHOIS records''\<rparr>]\<rparr>,
                   [domain])
                else
                  (let creation_date = get_first_date (wi_creation_date whois_info);
                       expiration_date = get_first_date (wi_expiration_date whois_info)
                   in (\<lparr>di_domain = domain, di_domain_exists = True,
                        di_creation_date = creation_date,
                        di_expiration_date = expiration_date,
                        di_last_updated = get_first_date (wi_updated_date whois_info),
                        di_registrar = wi_registrar whois_info,
                        di_domain_age_days = map_option (days_between (lib_now e)) creation_date,
                        di_suspicious_traits =
                          new_domain_traits e creation_date
                          @ registrar_traits (wi_registrar whois_info)
                          @ registration_traits creation_date expiration_date\<rparr>,
                       [domain]))))"

section \<open>Analysis result and orchestration\<close>

text \<open>The \<open>features\<close> of a verbose result: the parse result and the two added keys.\<close>

record all_features =
  af_url_features :: url_features
  af_domain_info :: domain_info
  af_brand_matches :: "brand_match list"

text \<open>\<open>AnalysisResult\<close>; the score is the integer that the risk engine returns.\<close>

record analysis_result =
  ar_url :: string
  risk_score :: int
  risk_factors :: "risk_factor list"
  ar_features :: "all_features option"


text \<open>\<open>PhishSniper.analyze(url, verbose)\<close>, with the modules as the constructor makes them.\<close>

definition analyze :: "env \<Rightarrow> string \<Rightarrow> bool \<Rightarrow> error + analysis_result" where
  "analyze e url verbose =
     (case parse e url of
        Inl err \<Rightarrow> Inl err
      | Inr url_features \<Rightarrow>
          (let domain_info = fst (domain_intelligence_analyze e (uf_hostname url_features));
               brand_matches = find_matches e (load_brands None) (uf_hostname url_features);
               all_features = \<lparr>af_url_features = url_features, af_domain_info = domain_info,
                                af_brand_matches = brand_matches\<rparr>
           in case calculate_risk risk_weights
                     \<lparr>in_suspicious_traits = Some (uf_suspicious_traits url_features),
                      in_domain_traits = Some (di_suspicious_traits domain_info),
                      in_brand_matches = Some brand_matches\<rparr> of
                (score, factors) \<Rightarrow>
                  Inr \<lparr>ar_url = url, risk_score = score, risk_factors = factors,
                       ar_features = (if verbose then Some all_features else None)\<rparr>))"

section \<open>Example libraries\<close>

text \<open>
  For worked examples: libraries that answer for one URL. \<open>urlparse\<close>, \<open>extract\<close> and
  \<open>whois\<close> return the given results, \<open>geturl\<close> puts scheme, host and path together again,
  the given addresses are the IP literals (all of them private), and \<open>ratio\<close> knows
  identical strings only.
\<close>

definition example_env ::
  "error + parse_result \<Rightarrow> extract_result \<Rightarrow> string list \<Rightarrow> string + whois_info \<Rightarrow> env" where
  "example_env parsed extracted ips whois =
     \<lparr>lib_urlparse = (\<lambda>url. parsed),
      lib_geturl = (\<lambda>p. pr_scheme p @ ''://'' @ pr_netloc p @ pr_path p),
      lib_parse_qs = (\<lambda>q. []),
      lib_extract = (\<lambda>h. extracted),
      lib_is_private = (\<lambda>ip. if ip \<in> set ips then Some True else None),
      lib_ratio = (\<lambda>a b. if a = b then 100 else 0),
      lib_inet_aton = (\<lambda>h. h \<in> set ips),
      lib_whois = (\<lambda>d. whois),
      lib_now = 1762214400000000\<rparr>"






text \<open>\<open>http://192.168.1.1/login\<close>: no WHOIS answer is ever needed.\<close>

definition ip_env :: env where
  "ip_env = example_env
     (Inr \<lparr>pr_scheme = ''http'', pr_netloc = ''192.168.1.1'', pr_path = ''/login'',
           pr_params = [], pr_query = [], pr_fragment = []\<rparr>)
     \<lparr>er_subdomain = [], er_domain = ''192.168.1.1'', er_suffix = []\<rparr>
     [''192.168.1.1'']
     (Inl ''no lookup expected'')"

text \<open>\<open>http://example.com/a%20b\<close>, a URL with a percent-encoded space in its path.\<close>

definition hex_env :: env where
  "hex_env = example_env
     (Inr \<lparr>pr_scheme = ''http'', pr_netloc = ''example.com'', pr_path = ''/a%20b'',
           pr_params = [], pr_query = [], pr_fragment = []\<rparr>)
     \<lparr>er_subdomain = [], er_domain = ''example'', er_suffix = ''com''\<rparr>
     []
     (Inl ''timed out'')"



text \<open>\<open>http://dropbox-login.com\<close>\<close>

definition dropbox_env :: env where
  "dropbox_env = example_env
     (Inr \<lparr>pr_scheme = ''http'', pr_netloc = ''dropbox-login.com'', pr_path = [],
           pr_params = [], pr_query = [], pr_fragment = []\<rparr>)
     \<lparr>er_subdomain = [], er_domain = ''dropbox-login'', er_suffix = ''com''\<rparr>
     []
     (Inl ''timed out'')"



section \<open>Sorted and stable risk factors\<close>

text \<open>
  Claim C7. Whatever the traits and brand matches are, the list of risk factors that
  \<open>calculate_risk\<close> returns is in descending order of weight, and the factors of any one
  weight appear in the order in which the loops recorded them (the sort is stable). The
  result is a function of the input, so identical inputs give identical outputs.
\<close>

theorem risk_factors_sorted_stable:
  "sorted_wrt (\<lambda>a b. factor_weight b \<le> factor_weight a) (snd (calculate_risk weights features))
   \<and> filter (\<lambda>f. factor_weight f = w) (snd (calculate_risk weights features))
       = filter (\<lambda>f. factor_weight f = w) (snd (collect_factors weights features))
   \<and> mset (snd (calculate_risk weights features)) = mset (snd (collect_factors weights features))"
proof -
  obtain total fs where c: "collect_factors weights features = (total, fs)"
    by (cases "collect_factors weights features")
  have s: "snd (calculate_risk weights features) = sort_factors fs"
    by (simp add: calculate_risk_def c)
  have "sorted (map (\<lambda>x. - factor_weight x) (sort_factors fs))"
    by (simp add: sort_factors_def)
  then have a: "sorted_wrt (\<lambda>a b. factor_weight b \<le> factor_weight a) (sort_factors fs)"
    by (simp add: sorted_wrt_map)
  have "filter (\<lambda>f. - factor_weight f = - w) (sort_factors fs)
          = filter (\<lambda>f. - factor_weight f = - w) fs"
    unfolding sort_factors_def by (rule sort_key_stable)
  then have b: "filter (\<lambda>f. factor_weight f = w) (sort_factors fs)
          = filter (\<lambda>f. factor_weight f = w) fs"
    by simp
  have d: "mset (sort_factors fs) = mset fs"
    by (simp add: sort_factors_def)
  show ?thesis
    using a b d by (simp add: s c)
qed

section \<open>The Levenshtein distance is the edit distance\<close>

lemma ed_Nil2 [simp]: "edit_distance xs [] = length xs"
  by (cases xs) auto

lemma ed_sym: "edit_distance xs ys = edit_distance ys xs"
  by (induction xs ys rule: edit_distance.induct) (auto simp: min_def)

lemma ed_snoc_Nil: "edit_distance [x] (ys @ [y]) =
   min (length ys + 2) (min (edit_distance [x] ys + 1) (length ys + (if x = y then 0 else 1)))"
  by (induction ys) (auto simp: min_def)

lemma ed_snoc_Nil2: "edit_distance (xs @ [x]) [y] =
   min (edit_distance xs [y] + 1) (min (length xs + 2) (length xs + (if x = y then 0 else 1)))"
  by (induction xs) (auto simp: min_def)

lemma min_shuffle:
  fixes A B C D E F G H I d e :: nat
  shows "min (min (A+1) (min (B+1) (C+d)) + 1) (min (min (D+1) (min (E+1) (F+d)) + 1) (min (G+1) (min (H+1) (I+d)) + e))
       = min (min (A+1) (min (D+1) (G+e)) + 1) (min (min (B+1) (min (E+1) (H+e)) + 1) (min (C+1) (min (F+1) (I+e)) + d))"
  apply (simp only: min_add_distrib_left)
  apply (rule antisym)
   apply (simp_all only: min.bounded_iff min_le_iff_disj)
   apply simp_all
  done

lemma ed_snoc: "edit_distance (xs @ [x]) (ys @ [y]) =
     min (edit_distance xs (ys @ [y]) + 1)
       (min (edit_distance (xs @ [x]) ys + 1)
            (edit_distance xs ys + (if x = y then 0 else 1)))"
proof (induction xs ys rule: edit_distance.induct)
  case (1 ys)
  then show ?case using ed_snoc_Nil[of x ys y] by simp
next
  case (2 a xs)
  then show ?case using ed_snoc_Nil2[of "a # xs" x y] by simp
next
  case (3 a xs b ys)
  let ?d = "if x = y then 0 else (1::nat)"
  let ?e = "if a = b then 0 else (1::nat)"
  have ih1: "edit_distance (xs @ [x]) (b # ys @ [y]) =
      min (edit_distance xs (b # ys @ [y]) + 1) (min (edit_distance (xs @ [x]) (b # ys) + 1) (edit_distance xs (b # ys) + ?d))"
    using "3.IH"(1) by simp
  have ih2: "edit_distance (a # xs @ [x]) (ys @ [y]) =
      min (edit_distance (a # xs) (ys @ [y]) + 1) (min (edit_distance (a # xs @ [x]) ys + 1) (edit_distance (a # xs) ys + ?d))"
    using "3.IH"(2) by simp
  have ih3: "edit_distance (xs @ [x]) (ys @ [y]) =
      min (edit_distance xs (ys @ [y]) + 1) (min (edit_distance (xs @ [x]) ys + 1) (edit_distance xs ys + ?d))"
    using "3.IH"(3) by simp
  have l: "edit_distance ((a # xs) @ [x]) ((b # ys) @ [y]) =
      min (edit_distance (xs @ [x]) (b # ys @ [y]) + 1)
        (min (edit_distance (a # xs @ [x]) (ys @ [y]) + 1) (edit_distance (xs @ [x]) (ys @ [y]) + ?e))"
    by simp
  have r1: "edit_distance (a # xs) ((b # ys) @ [y]) =
      min (edit_distance xs (b # ys @ [y]) + 1) (min (edit_distance (a # xs) (ys @ [y]) + 1) (edit_distance xs (ys @ [y]) + ?e))"
    by simp
  have r2: "edit_distance ((a # xs) @ [x]) (b # ys) =
      min (edit_distance (xs @ [x]) (b # ys) + 1) (min (edit_distance (a # xs @ [x]) ys + 1) (edit_distance (xs @ [x]) ys + ?e))"
    by simp
  have r3: "edit_distance (a # xs) (b # ys) =
      min (edit_distance xs (b # ys) + 1) (min (edit_distance (a # xs) ys + 1) (edit_distance xs ys + ?e))"
    by simp
  show ?case
    unfolding l r1 r2 r3 ih1 ih2 ih3 by (rule min_shuffle)
qed

lemma take_enumerate_Suc:
  "k < length xs \<Longrightarrow> take (Suc k) (enumerate 0 xs) = take k (enumerate 0 xs) @ [(k, xs ! k)]"
  by (simp add: take_Suc_conv_app_nth nth_enumerate_eq)

lemma lev_cells:
  "k \<le> length s2 \<Longrightarrow>
   fold (lev_cell c1 (dist_row a s2)) (take k (enumerate 0 s2)) [length a + 1]
     = map (\<lambda>j. edit_distance (a @ [c1]) (take j s2)) [0..<k + 1]"
proof (induction k)
  case 0
  then show ?case by simp
next
  case (Suc k)
  then have k: "k < length s2" by simp
  let ?cur = "map (\<lambda>j. edit_distance (a @ [c1]) (take j s2)) [0..<k + 1]"
  have cur: "fold (lev_cell c1 (dist_row a s2)) (take k (enumerate 0 s2)) [length a + 1] = ?cur"
    using Suc by simp
  have p1: "dist_row a s2 ! (k + 1) = edit_distance a (take (Suc k) s2)"
    using k by (simp add: dist_row_def nth_append del: upt_Suc)
  have p0: "dist_row a s2 ! k = edit_distance a (take k s2)"
    using k by (simp add: dist_row_def nth_append del: upt_Suc)
  have c: "?cur ! k = edit_distance (a @ [c1]) (take k s2)"
    by (simp add: nth_append del: upt_Suc)
  have t: "take (Suc k) s2 = take k s2 @ [s2 ! k]"
    using k by (simp add: take_Suc_conv_app_nth)
  have step: "lev_cell c1 (dist_row a s2) (k, s2 ! k) ?cur
      = ?cur @ [edit_distance (a @ [c1]) (take (Suc k) s2)]"
    unfolding lev_cell_def Let_def prod.case p1 p0 c
    by (simp add: t ed_snoc)
  show ?case
    using k cur step by (simp add: take_enumerate_Suc)
qed

lemma lev_row_dist: "lev_row s2 (length a, c1) (dist_row a s2) = dist_row (a @ [c1]) s2"
  using lev_cells [of "length s2" s2 c1 a]
  by (simp add: lev_row_def dist_row_def)

lemma lev_rows:
  "i \<le> length s1 \<Longrightarrow>
   fold (lev_row s2) (take i (enumerate 0 s1)) [0..<length s2 + 1] = dist_row (take i s1) s2"
proof (induction i)
  case 0
  have "map (\<lambda>j. edit_distance [] (take j s2)) [0..<length s2 + 1] = map (\<lambda>j. j) [0..<length s2 + 1]"
    by (rule map_cong) auto
  then show ?case by (simp add: dist_row_def)
next
  case (Suc i)
  then have i: "i < length s1" by simp
  have "fold (lev_row s2) (take (Suc i) (enumerate 0 s1)) [0..<length s2 + 1]
      = lev_row s2 (i, s1 ! i) (dist_row (take i s1) s2)"
    using Suc i by (simp add: take_enumerate_Suc)
  also have "\<dots> = dist_row (take i s1 @ [s1 ! i]) s2"
    using lev_row_dist [of s2 "take i s1" "s1 ! i"] i by simp
  finally show ?case using i by (simp add: take_Suc_conv_app_nth)
qed

lemma lev_core:
  "length s2 \<le> length s1 \<Longrightarrow> levenshtein_distance s1 s2 = edit_distance s1 s2"
proof -
  assume le: "length s2 \<le> length s1"
  show ?thesis
  proof (cases "length s2 = 0")
    case True
    then show ?thesis using le by (simp add: levenshtein_distance.simps)
  next
    case False
    have "fold (lev_row s2) (enumerate 0 s1) [0..<length s2 + 1] = dist_row s1 s2"
      using lev_rows [of "length s1" s1 s2] by simp
    moreover have "last (dist_row s1 s2) = edit_distance s1 s2"
      by (simp add: dist_row_def)
    ultimately show ?thesis
      using le False by (simp add: levenshtein_distance.simps)
  qed
qed

lemma levenshtein_is_edit_distance: "levenshtein_distance s1 s2 = edit_distance s1 s2"
proof (cases "length s1 < length s2")
  case True
  then have "levenshtein_distance s1 s2 = levenshtein_distance s2 s1"
    by (subst levenshtein_distance.simps) simp
  also have "\<dots> = edit_distance s2 s1" using True by (simp add: lev_core)
  finally show ?thesis by (simp add: ed_sym)
next
  case False
  then show ?thesis by (simp add: lev_core)
qed

text \<open>
  Claim C8. The distance that the brand matcher computes does not depend on the order of
  its two arguments, and it is the classic edit distance between the two whole strings,
  in which an insertion, a deletion and a substitution cost 1 each.
\<close>

theorem levenshtein_distance_symmetric:
  "levenshtein_distance a b = levenshtein_distance b a
   \<and> levenshtein_distance a b = edit_distance a b"
  by (simp add: levenshtein_is_edit_distance ed_sym)

section \<open>What the risk engine records\<close>







subsection \<open>Weights are not negative\<close>









subsection \<open>Scaling the typosquatting weight\<close>


section \<open>The risk score\<close>









section \<open>Weights of brand matches\<close>




section \<open>IP literals are not looked up\<close>

text \<open>
  Claim C9. When the host name, without its port, is recognised as an IP address by
  \<open>_is_ip_address\<close>, the registration step looks nothing up with WHOIS, and the record it
  returns says that the domain does not exist and carries exactly one trait,
  \<open>ip_address_no_whois\<close>.
\<close>

theorem ip_literal_skips_whois:
  "is_ip_address e (strip_port hostname) \<Longrightarrow>
     snd (domain_intelligence_analyze e hostname) = []
     \<and> \<not> di_domain_exists (fst (domain_intelligence_analyze e hostname))
     \<and> di_suspicious_traits (fst (domain_intelligence_analyze e hostname))
         = [\<lparr>trait_type = ''ip_address_no_whois'', trait_value = Str (strip_port hostname),
             trait_description = ''IP address used instead of domain name (no WHOIS data)''\<rparr>]"
  by (simp add: domain_intelligence_analyze_def Let_def)

theorem ip_literal_skips_whois_witness:
  "is_ip_address ip_env (strip_port ''192.168.1.1:8080'')
   \<and> snd (domain_intelligence_analyze ip_env ''192.168.1.1:8080'') = []
   \<and> \<not> di_domain_exists (fst (domain_intelligence_analyze ip_env ''192.168.1.1:8080''))
   \<and> di_suspicious_traits (fst (domain_intelligence_analyze ip_env ''192.168.1.1:8080''))
       = [\<lparr>trait_type = ''ip_address_no_whois'', trait_value = Str ''192.168.1.1'',
           trait_description = ''IP address used instead of domain name (no WHOIS data)''\<rparr>]"
proof -
  have s: "strip_port ''192.168.1.1:8080'' = ''192.168.1.1''"
    by code_simp
  have h: "is_ip_address ip_env (strip_port ''192.168.1.1:8080'')"
    unfolding s by (simp add: is_ip_address_def ip_env_def example_env_def)
  show ?thesis
    using ip_literal_skips_whois [OF h] h by (simp add: s)
qed

section \<open>Percent-encoded URLs\<close>

text \<open>
  Claim C2 says that a URL with a percent-encoded byte in its host or path is parsed and
  gets one \<open>hex_encoding\<close> trait. The code does not do that: whenever \<open>urlparse\<close> returns a
  host or a path that matches \<open>%XX\<close>, building the trait raises \<open>NameError\<close> (the name \<open>url\<close>
  is not defined in \<open>_analyze_suspicious_traits\<close>), so \<open>parse\<close> and the whole analysis fail.
\<close>

theorem hex_encoding_raises_name_error:
  assumes "lib_urlparse e (ensure_scheme url) = Inr parsed"
    and "re_search hex_pattern (pr_netloc parsed) \<or> re_search hex_pattern (pr_path parsed)"
  shows "parse e url = Inl (NameError ''url'') \<and> analyze e url verbose = Inl (NameError ''url'')"
  using assms by (simp add: analyze_def parse_def analyze_suspicious_traits_def Let_def)

theorem hex_encoding_raises_name_error_witness:
  "parse hex_env ''http://example.com/a%20b'' = Inl (NameError ''url'')
   \<and> analyze hex_env ''http://example.com/a%20b'' False = Inl (NameError ''url'')"
proof -
  let ?p = "\<lparr>pr_scheme = ''http'', pr_netloc = ''example.com'', pr_path = ''/a%20b'',
           pr_params = [], pr_query = [], pr_fragment = []\<rparr>"
  have u: "lib_urlparse hex_env (ensure_scheme ''http://example.com/a%20b'') = Inr ?p"
    by (simp add: hex_env_def example_env_def)
  have "re_search hex_pattern ''/a%20b''"
    by code_simp
  then have h: "re_search hex_pattern (pr_netloc ?p) \<or> re_search hex_pattern (pr_path ?p)"
    by simp
  show ?thesis
    using hex_encoding_raises_name_error [OF u h] by simp
qed

section \<open>Strings that are not URLs\<close>




section \<open>The homoglyph table\<close>

text \<open>The dictionary display has the keys \<open>'1'\<close> and \<open>'m'\<close> twice; the later values win.\<close>

lemma homoglyphs_eq:
  "homoglyphs = [(''0'', ''o''), (''o'', ''0''), (''1'', ''i''), (''l'', ''1''),
     (''i'', ''1''), (''5'', ''s''), (''s'', ''5''), (''rn'', ''m''),
     (''m'', ''nn''), (''cl'', ''d''), (''d'', ''cl''), (''vv'', ''w''),
     (''w'', ''vv''), (''nn'', ''m'')]"
  by (simp add: homoglyphs_def dict_display_def)

text \<open>
  Claim C4 says that \<open>m\<close> is replaced by \<open>rn\<close>, so that the domain \<open>arnazon\<close> is a homoglyph
  attack on \<open>amazon\<close>. In the code the table maps \<open>m\<close> to \<open>nn\<close> only, and the homoglyph pass
  finds nothing for \<open>arnazon\<close> with the default brands.
\<close>

theorem arnazon_is_no_homoglyph_attack:
  "map_of homoglyphs ''m'' = Some ''nn''
   \<and> check_homoglyphs default_brands ''arnazon'' = []"
proof -
  have "check_homoglyphs default_brands ''arnazon'' = []"
    by code_simp
  then show ?thesis by (simp add: homoglyphs_eq)
qed

end
